theory Spec2Isabelle
  imports Main "HOL-Library.Word"
begin

unbundle bit_operations_syntax

section \<open>Machine types\<close>

text \<open>
  Both files are x86-64 only (\<^verbatim>\<open>_pdep_u64\<close>, \<^verbatim>\<open>rdtsc\<close> with the \<^verbatim>\<open>=a\<close>/\<^verbatim>\<open>=d\<close>
  constraints), so the data model is LP64: \<^verbatim>\<open>unsigned int\<close> and \<^verbatim>\<open>uint32_t\<close> are
  32-bit words, \<^verbatim>\<open>unsigned long\<close>, \<^verbatim>\<open>unsigned long long\<close>, \<^verbatim>\<open>uint64_t\<close> and
  \<^verbatim>\<open>size_t\<close> are 64-bit words.
\<close>

type_synonym u32 = "32 word"
type_synonym u64 = "64 word"

text \<open>
  A pointer is either \<^verbatim>\<open>NULL\<close> or the address of an object. Addresses of float
  buffers are counted in units of one \<^verbatim>\<open>float\<close>.
\<close>

datatype ptr = NULL | Addr nat

section \<open>Timestamp and performance counters\<close>

text \<open>
  The inline assembly of \<^verbatim>\<open>get_cycles_x86\<close>, \<^verbatim>\<open>rdtsc\<close> and \<^verbatim>\<open>read_pmc\<close> writes the
  registers \<^verbatim>\<open>eax\<close> and \<^verbatim>\<open>edx\<close> into two 32-bit locals. What the instruction
  leaves there is the hardware's business; the functions take the register pair
  \<open>(eax, edx)\<close> as their input.
\<close>

text \<open>
  \<^verbatim>\<open>graviton_problematic.c\<close>:
  \<^verbatim>\<open>unsigned int lo, hi; rdtsc -> (lo, hi); return ((unsigned long long)hi << 32) | lo;\<close>
\<close>

definition get_cycles_x86 :: "u32 \<times> u32 \<Rightarrow> u64" where
  "get_cycles_x86 regs =
     (case regs of (lo, hi) \<Rightarrow> push_bit 32 (ucast hi :: u64) OR ucast lo)"

text \<open>
  \<^verbatim>\<open>x86_specific.c\<close>:
  \<^verbatim>\<open>uint32_t low, high; rdtsc -> (low, high); return ((uint64_t)high << 32) | low;\<close>
\<close>

definition rdtsc :: "u32 \<times> u32 \<Rightarrow> u64" where
  "rdtsc regs =
     (case regs of (low, high) \<Rightarrow> push_bit 32 (ucast high :: u64) OR ucast low)"

text \<open>
  \<^verbatim>\<open>read_pmc(counter)\<close> passes \<^verbatim>\<open>counter\<close> in \<^verbatim>\<open>ecx\<close> to \<^verbatim>\<open>rdpmc\<close>; the instruction is
  the parameter \<open>rdpmc\<close>, from the counter index to the register pair.
\<close>

definition read_pmc :: "(u32 \<Rightarrow> u32 \<times> u32) \<Rightarrow> u32 \<Rightarrow> u64" where
  "read_pmc rdpmc counter =
     (case rdpmc counter of (low, high) \<Rightarrow> push_bit 32 (ucast high :: u64) OR ucast low)"

section \<open>The libcurl write callback\<close>

text \<open>
  \<^verbatim>\<open>size_t write_callback(void* contents, size_t size, size_t nmemb, void* userp)
  { return size * nmemb; }\<close>
  Unsigned multiplication in C wraps modulo \<open>2 ^ 64\<close>, as \<open>*\<close> on \<open>64 word\<close> does
  (\<open>sz\<close> stands for the parameter \<^verbatim>\<open>size\<close>, a constant of HOL).
\<close>

definition write_callback :: "ptr \<Rightarrow> u64 \<Rightarrow> u64 \<Rightarrow> ptr \<Rightarrow> u64" where
  "write_callback contents sz nmemb userp = sz * nmemb"

section \<open>Memory, faults and output\<close>

text \<open>
  What C leaves undefined is a value of the model: a function that touches memory
  returns either a fault or the machine after the call.
\<close>

datatype fault =
    NullDeref        \<comment> \<open>access through \<^verbatim>\<open>NULL\<close>\<close>
  | Unmapped         \<comment> \<open>access to a cell that belongs to no object\<close>
  | Misaligned       \<comment> \<open>aligned vector access at an address that is not aligned\<close>
  | SignedOverflow   \<comment> \<open>\<^verbatim>\<open>int\<close> arithmetic beyond \<^verbatim>\<open>INT_MAX\<close>\<close>
  | StackOverwrite   \<comment> \<open>vector store over a pointer-sized local\<close>

text \<open>
  The machine: the float cells that belong to some object, by address, and what
  has been written to standard output. The type \<open>'v\<close> of a \<^verbatim>\<open>float\<close> value and
  the arithmetic on it stay abstract.
\<close>

record 'v machine =
  mem :: "nat \<Rightarrow> 'v option"
  stdout :: string

text \<open>
  \<^verbatim>\<open>&p[i]\<close>. An offset from \<^verbatim>\<open>NULL\<close> is the address of no object; it stays \<^verbatim>\<open>NULL\<close>.
  The loops below only index with \<open>i \<ge> 0\<close>.
\<close>

fun elem :: "ptr \<Rightarrow> int \<Rightarrow> ptr" where
  "elem NULL i = NULL"
| "elem (Addr a) i = Addr (a + nat i)"

text \<open>
  \<^verbatim>\<open>_mm_load_ps\<close> (\<open>w = 4\<close>) and \<^verbatim>\<open>_mm256_load_ps\<close> (\<open>w = 8\<close>): read \<open>w\<close> consecutive
  floats from an address aligned to \<open>w\<close> floats.
\<close>

definition load_vec :: "nat \<Rightarrow> ptr \<Rightarrow> 'v machine \<Rightarrow> fault + 'v list" where
  "load_vec w p s =
     (case p of
        NULL \<Rightarrow> Inl NullDeref
      | Addr a \<Rightarrow>
          if a mod w \<noteq> 0 then Inl Misaligned
          else (case those (map (mem s) [a ..< a + w]) of
                  None \<Rightarrow> Inl Unmapped
                | Some vs \<Rightarrow> Inr vs))"

fun store_cells :: "nat \<Rightarrow> 'v list \<Rightarrow> (nat \<Rightarrow> 'v option) \<Rightarrow> (nat \<Rightarrow> 'v option)" where
  "store_cells a [] m = m"
| "store_cells a (v # vs) m = store_cells (Suc a) vs (m(a \<mapsto> v))"

text \<open>\<^verbatim>\<open>_mm_store_ps\<close> (\<open>w = 4\<close>): write the vector to an aligned address.\<close>

definition store_vec :: "nat \<Rightarrow> ptr \<Rightarrow> 'v list \<Rightarrow> 'v machine \<Rightarrow> fault + 'v machine" where
  "store_vec w p vs s =
     (case p of
        NULL \<Rightarrow> Inl NullDeref
      | Addr a \<Rightarrow>
          if a mod w \<noteq> 0 then Inl Misaligned
          else if list_ex (\<lambda>k. mem s k = None) [a ..< a + length vs] then Inl Unmapped
          else Inr (s\<lparr>mem := store_cells a vs (mem s)\<rparr>))"

text \<open>\<^verbatim>\<open>printf\<close> with a constant format: the text is appended to standard output.\<close>

definition printf :: "string \<Rightarrow> 'v machine \<Rightarrow> fault + 'v machine" where
  "printf txt s = Inr (s\<lparr>stdout := stdout s @ txt\<rparr>)"

text \<open>The decimal digits of \<^verbatim>\<open>%llu\<close>.\<close>

fun show_nat :: "nat \<Rightarrow> string" where
  "show_nat n =
     (if n < 10 then [char_of (48 + n)]
      else show_nat (n div 10) @ [char_of (48 + n mod 10)])"

declare show_nat.simps [simp del]

text \<open>Statements in sequence: the first fault ends the run.\<close>

fun run :: "('s \<Rightarrow> fault + 's) list \<Rightarrow> 's \<Rightarrow> fault + 's" where
  "run [] s = Inr s"
| "run (c # cs) s = (case c s of Inl e \<Rightarrow> Inl e | Inr s' \<Rightarrow> run cs s')"

section \<open>The demonstration program graviton-problematic\<close>

text \<open>
  What the file uses and does not define: the \<^verbatim>\<open>cpuid\<close> and \<^verbatim>\<open>rdtsc\<close> instructions, float
  multiplication and addition, zlib's \<^verbatim>\<open>compress\<close>, and the functions whose whole
  body is calls into OpenSSL, libcurl, ncurses, the socket API, the x87 unit and
  \<^verbatim>\<open>gettimeofday\<close>. They are the parameters of the model.
\<close>

record 'v env =
  cpuid_insn :: "u32 \<Rightarrow> u32 \<times> u32 \<times> u32 \<times> u32"
  rdtsc_insn :: "u32 \<times> u32"
  mul_ps :: "'v \<Rightarrow> 'v \<Rightarrow> 'v"
  add_ps :: "'v \<Rightarrow> 'v \<Rightarrow> 'v"
  zlib_compress :: "ptr \<Rightarrow> ptr \<Rightarrow> ptr \<Rightarrow> u64 \<Rightarrow> 'v machine \<Rightarrow> fault + 'v machine"
  old_openssl_init :: "'v machine \<Rightarrow> fault + 'v machine"
  old_curl_request :: "'v machine \<Rightarrow> fault + 'v machine"
  old_ncurses_interface :: "'v machine \<Rightarrow> fault + 'v machine"
  create_old_socket :: "'v machine \<Rightarrow> fault + 'v machine"
  x86_fpu_test :: "'v machine \<Rightarrow> fault + 'v machine"
  old_timing :: "'v machine \<Rightarrow> fault + 'v machine"

text \<open>
  \<^verbatim>\<open>__cpuid(1, eax, ebx, ecx, edx); if (ecx & (1 << 9)) printf("SSE2 supported\n");\<close>
\<close>

definition x86_cpuid_test :: "'v env \<Rightarrow> 'v machine \<Rightarrow> fault + 'v machine" where
  "x86_cpuid_test E s =
     (case cpuid_insn E 1 of (eax, ebx, ecx, edx) \<Rightarrow>
        if ecx AND push_bit 9 1 \<noteq> 0
        then printf (''SSE2 supported'' @ [CHR 0x0A]) s
        else Inr s)"

text \<open>
  The body of the loop of \<^verbatim>\<open>sse2_matrix_multiply\<close>:
  \<^verbatim>\<open>a = _mm_load_ps(&A[i]); b = _mm_load_ps(&B[i]); _mm_store_ps(&C[i], _mm_mul_ps(a, b));\<close>
\<close>

definition sse2_body ::
  "('v \<Rightarrow> 'v \<Rightarrow> 'v) \<Rightarrow> ptr \<Rightarrow> ptr \<Rightarrow> ptr \<Rightarrow> int \<Rightarrow> 'v machine \<Rightarrow> fault + 'v machine" where
  "sse2_body fmul A B C i s =
     (case load_vec 4 (elem A i) s of
        Inl e \<Rightarrow> Inl e
      | Inr a \<Rightarrow>
          (case load_vec 4 (elem B i) s of
             Inl e \<Rightarrow> Inl e
           | Inr b \<Rightarrow> store_vec 4 (elem C i) (map2 fmul a b) s))"

text \<open>
  \<^verbatim>\<open>for (i = 0; i < n; i += 4) body\<close>, from the current \<open>i\<close>. The counter is a C \<^verbatim>\<open>int\<close>:
  \<^verbatim>\<open>i += 4\<close> beyond \<^verbatim>\<open>INT_MAX\<close> is undefined.
\<close>

function sse2_loop ::
  "('v \<Rightarrow> 'v \<Rightarrow> 'v) \<Rightarrow> ptr \<Rightarrow> ptr \<Rightarrow> ptr \<Rightarrow> int \<Rightarrow> int \<Rightarrow> 'v machine \<Rightarrow> fault + 'v machine" where
  "sse2_loop fmul A B C n i s =
     (if i < n then
        (case sse2_body fmul A B C i s of
           Inl e \<Rightarrow> Inl e
         | Inr s' \<Rightarrow>
             if 2147483647 < i + 4 then Inl SignedOverflow
             else sse2_loop fmul A B C n (i + 4) s')
      else Inr s)"
  by pat_completeness auto
termination
  by (relation "measure (\<lambda>(fmul, A, B, C, n, i, s). nat (n - i))") auto

declare sse2_loop.simps [simp del]

definition sse2_matrix_multiply ::
  "('v \<Rightarrow> 'v \<Rightarrow> 'v) \<Rightarrow> ptr \<Rightarrow> ptr \<Rightarrow> ptr \<Rightarrow> int \<Rightarrow> 'v machine \<Rightarrow> fault + 'v machine" where
  "sse2_matrix_multiply fmul A B C n s = sse2_loop fmul A B C n 0 s"

text \<open>
  The body of the loop of \<^verbatim>\<open>avx2_vector_add\<close>:
  \<^verbatim>\<open>va = _mm256_load_ps(&a[i]); vb = _mm256_load_ps(&b[i]); vr = _mm256_add_ps(va, vb);
  _mm256_store_ps(&result, vr);\<close>
  The store goes to \<^verbatim>\<open>&result\<close>, the address of the pointer parameter itself, not
  to \<^verbatim>\<open>&result[i]\<close>: eight floats are written over an eight-byte local.
\<close>

definition avx2_body ::
  "('v \<Rightarrow> 'v \<Rightarrow> 'v) \<Rightarrow> ptr \<Rightarrow> ptr \<Rightarrow> ptr \<Rightarrow> int \<Rightarrow> 'v machine \<Rightarrow> fault + 'v machine" where
  "avx2_body fadd a b result i s =
     (case load_vec 8 (elem a i) s of
        Inl e \<Rightarrow> Inl e
      | Inr va \<Rightarrow>
          (case load_vec 8 (elem b i) s of
             Inl e \<Rightarrow> Inl e
           | Inr vb \<Rightarrow> Inl StackOverwrite))"

function avx2_loop ::
  "('v \<Rightarrow> 'v \<Rightarrow> 'v) \<Rightarrow> ptr \<Rightarrow> ptr \<Rightarrow> ptr \<Rightarrow> int \<Rightarrow> int \<Rightarrow> 'v machine \<Rightarrow> fault + 'v machine" where
  "avx2_loop fadd a b result n i s =
     (if i < n then
        (case avx2_body fadd a b result i s of
           Inl e \<Rightarrow> Inl e
         | Inr s' \<Rightarrow>
             if 2147483647 < i + 8 then Inl SignedOverflow
             else avx2_loop fadd a b result n (i + 8) s')
      else Inr s)"
  by pat_completeness auto
termination
  by (relation "measure (\<lambda>(fadd, a, b, result, n, i, s). nat (n - i))") auto

declare avx2_loop.simps [simp del]

definition avx2_vector_add ::
  "('v \<Rightarrow> 'v \<Rightarrow> 'v) \<Rightarrow> ptr \<Rightarrow> ptr \<Rightarrow> ptr \<Rightarrow> int \<Rightarrow> 'v machine \<Rightarrow> fault + 'v machine" where
  "avx2_vector_add fadd a b result n s = avx2_loop fadd a b result n 0 s"

text \<open>
  \<^verbatim>\<open>compress_old_zlib(input, input_len, output, output_len)
  { compress(output, output_len, input, input_len); }\<close>
\<close>

definition compress_old_zlib ::
  "(ptr \<Rightarrow> ptr \<Rightarrow> ptr \<Rightarrow> u64 \<Rightarrow> 'v machine \<Rightarrow> fault + 'v machine)
   \<Rightarrow> ptr \<Rightarrow> u64 \<Rightarrow> ptr \<Rightarrow> ptr \<Rightarrow> 'v machine \<Rightarrow> fault + 'v machine" where
  "compress_old_zlib compress input input_len output output_len s =
     compress output output_len input input_len s"

text \<open>The statements of \<^verbatim>\<open>main\<close>, in order.\<close>

definition main_calls :: "'v env \<Rightarrow> ('v machine \<Rightarrow> fault + 'v machine) list" where
  "main_calls E =
     [ printf (''Graviton Migration Test - High Complexity'' @ [CHR 0x0A]),
       x86_cpuid_test E,
       sse2_matrix_multiply (mul_ps E) NULL NULL NULL 16,
       avx2_vector_add (add_ps E) NULL NULL NULL 32,
       printf (''Cycles: '' @ show_nat (unat (get_cycles_x86 (rdtsc_insn E))) @ [CHR 0x0A]),
       old_openssl_init E,
       old_curl_request E,
       compress_old_zlib (zlib_compress E) NULL 0 NULL NULL,
       old_ncurses_interface E,
       create_old_socket E,
       x86_fpu_test E,
       old_timing E,
       printf (''This file has 47+ migration issues!'' @ [CHR 0x0A]) ]"

text \<open>\<^verbatim>\<open>main\<close> returns 0 when every statement has returned.\<close>

definition main :: "'v env \<Rightarrow> 'v machine \<Rightarrow> fault + int \<times> 'v machine" where
  "main E s = (case run (main_calls E) s of Inl e \<Rightarrow> Inl e | Inr s' \<Rightarrow> Inr (0, s'))"

section \<open>Properties of the counters\<close>

lemma halves_disjoint:
  "push_bit 32 (ucast (hi :: u32) :: u64) AND ucast (lo :: u32) = 0"
  by (rule bit_eqI) (auto simp add: bit_simps dest: bit_imp_le_length)

lemma halves_or_eq_add:
  "push_bit 32 (ucast (hi :: u32) :: u64) OR ucast (lo :: u32) =
   push_bit 32 (ucast hi) + ucast lo"
  by (rule disjunctive_add_eq_or [symmetric]) (rule halves_disjoint)

lemma unat_halves:
  "unat (push_bit 32 (ucast (hi :: u32) :: u64) OR ucast (lo :: u32)) =
   unat hi * 2 ^ 32 + unat lo"
proof -
  have lo: "unat lo < 2 ^ 32" and hi: "unat hi < 2 ^ 32"
    using unsigned_less [of lo, where 'a = nat] unsigned_less [of hi, where 'a = nat]
    by simp_all
  have a: "unat (ucast lo :: u64) = unat lo"
    using lo by (simp add: unsigned_ucast_eq take_bit_nat_eq_self_iff)
  have b: "unat (push_bit 32 (ucast hi :: u64)) = unat hi * 2 ^ 32"
  proof -
    have c: "unat (ucast hi :: u64) = unat hi"
      using hi by (simp add: unsigned_ucast_eq take_bit_nat_eq_self_iff)
    have "unat hi * 2 ^ 32 < 2 ^ 64" using hi by simp
    then show ?thesis
      by (simp add: push_bit_eq_mult unat_word_ariths c)
  qed
  have "unat hi * 2 ^ 32 + unat lo < 2 ^ 64" using lo hi by simp
  then show ?thesis
    by (simp add: halves_or_eq_add unat_word_ariths a b)
qed

text \<open>
  Claim C9. \<^verbatim>\<open>get_cycles_x86\<close> (graviton_problematic.c) and \<^verbatim>\<open>rdtsc\<close>
  (x86_specific.c) are the same function of the register pair the timestamp
  instruction returns: for all 32-bit \<open>lo\<close> and \<open>hi\<close> both give
  \<open>((uint64_t)hi << 32) | lo\<close>, the 64-bit value \<open>hi * 2^32 + lo\<close>; \<^verbatim>\<open>read_pmc\<close>
  combines the pair its instruction returns in the same way.
\<close>

theorem C9_counter_halves_combined_identically:
  "get_cycles_x86 = rdtsc
   \<and> get_cycles_x86 (lo, hi) = push_bit 32 (ucast hi) OR ucast lo
   \<and> rdtsc (lo, hi) = push_bit 32 (ucast hi) OR ucast lo
   \<and> unat (rdtsc (lo, hi)) = unat hi * 2 ^ 32 + unat lo
   \<and> read_pmc rdpmc counter = rdtsc (rdpmc counter)"
proof -
  have "get_cycles_x86 = rdtsc"
    by (rule ext) (simp add: get_cycles_x86_def rdtsc_def)
  moreover have "unat (rdtsc (lo, hi)) = unat hi * 2 ^ 32 + unat lo"
    by (simp add: rdtsc_def unat_halves)
  moreover have "read_pmc rdpmc counter = rdtsc (rdpmc counter)"
    by (simp add: read_pmc_def rdtsc_def)
  ultimately show ?thesis
    by (simp add: get_cycles_x86_def rdtsc_def)
qed

section \<open>Properties of the write callback\<close>

text \<open>
  Claim C10. For every \<open>size\<close> and \<open>nmemb\<close>, \<^verbatim>\<open>write_callback\<close> returns the product
  \<open>size * nmemb\<close> reduced modulo \<open>2 ^ 64\<close>, whatever the \<open>contents\<close> and \<open>userp\<close>
  pointers are: the result is the same for any two choices of the pointers, so
  the buffer is never inspected.
\<close>

theorem C10_write_callback_product_mod_2_64:
  "unat (write_callback contents sz nmemb userp) = (unat sz * unat nmemb) mod 2 ^ 64
   \<and> write_callback contents sz nmemb userp = write_callback contents' sz nmemb userp'"
  by (simp add: write_callback_def unat_word_ariths)

section \<open>The calls in main\<close>

lemma printf_returns: "\<exists>s'. printf txt s = Inr s'"
  by (simp add: printf_def)

lemma x86_cpuid_test_returns: "\<exists>s'. x86_cpuid_test E s = Inr s'"
  by (simp add: x86_cpuid_test_def printf_def split: prod.split)

lemma sse2_body_NULL: "sse2_body fmul NULL B C i s = Inl NullDeref"
  by (simp add: sse2_body_def load_vec_def)

lemma sse2_matrix_multiply_NULL:
  "sse2_matrix_multiply fmul NULL B C n s = (if 0 < n then Inl NullDeref else Inr s)"
  by (simp add: sse2_matrix_multiply_def sse2_loop.simps [of fmul NULL B C n 0 s] sse2_body_NULL)

lemma avx2_body_NULL: "avx2_body fadd NULL b r i s = Inl NullDeref"
  by (simp add: avx2_body_def load_vec_def)

lemma avx2_vector_add_NULL:
  "avx2_vector_add fadd NULL b r n s = (if 0 < n then Inl NullDeref else Inr s)"
  by (simp add: avx2_vector_add_def avx2_loop.simps [of fadd NULL b r n 0 s] avx2_body_NULL)

lemma main_faults: "main E s = Inl NullDeref"
proof -
  obtain s1 where s1: "printf (''Graviton Migration Test - High Complexity'' @ [CHR 0x0A]) s = Inr s1"
    using printf_returns by blast
  obtain s2 where s2: "x86_cpuid_test E s1 = Inr s2"
    using x86_cpuid_test_returns by blast
  have "run (main_calls E) s = Inl NullDeref"
    using s1 s2 by (simp add: main_calls_def sse2_matrix_multiply_NULL)
  then show ?thesis
    by (simp add: main_def)
qed

text \<open>
  The fault is not built into the model: on three mapped, aligned buffers of four
  floats the function returns and leaves the products in the third.
\<close>

lemma sse2_matrix_multiply_on_buffers:
  "case sse2_matrix_multiply (*) (Addr 0) (Addr 4) (Addr 8) 4
          \<lparr>mem = (\<lambda>k. if k < 12 then Some (k + 1) else None), stdout = []\<rparr> of
     Inl e \<Rightarrow> False
   | Inr s' \<Rightarrow> map (mem s') [8, 9, 10, 11, 12] = [Some 5, Some 12, Some 21, Some (32::nat), None]"
  by (simp add: sse2_matrix_multiply_def sse2_loop.simps [of _ _ _ _ _ 0]
      sse2_loop.simps [of _ _ _ _ _ 4] sse2_body_def load_vec_def store_vec_def
      upt_rec [of 0] upt_rec [of 4] upt_rec [of 8] upt_rec [of "Suc _"])

text \<open>
  Claim C1. \<^verbatim>\<open>main\<close> of graviton_problematic.c calls its functions on \<^verbatim>\<open>NULL\<close> buffers
  and zero lengths: \<^verbatim>\<open>sse2_matrix_multiply(NULL, NULL, NULL, 16)\<close>,
  \<^verbatim>\<open>avx2_vector_add(NULL, NULL, NULL, 32)\<close> and \<^verbatim>\<open>compress_old_zlib(NULL, 0, NULL, NULL)\<close>
  are the third, fourth and eighth statement. With these arguments the loop body
  of \<^verbatim>\<open>sse2_matrix_multiply\<close> dereferences \<^verbatim>\<open>NULL\<close> at every index and on every
  machine state, so the call itself, the call of \<^verbatim>\<open>avx2_vector_add\<close> and \<^verbatim>\<open>main\<close> end
  in the null-dereference fault; \<^verbatim>\<open>compress_old_zlib\<close> hands the \<^verbatim>\<open>NULL\<close> buffers and
  the zero length to zlib unchanged.
\<close>

theorem C1_main_calls_on_NULL_buffers:
  "main_calls E ! 2 = sse2_matrix_multiply (mul_ps E) NULL NULL NULL 16
   \<and> main_calls E ! 3 = avx2_vector_add (add_ps E) NULL NULL NULL 32
   \<and> main_calls E ! 7 = compress_old_zlib (zlib_compress E) NULL 0 NULL NULL
   \<and> sse2_body fmul NULL NULL NULL i s = Inl NullDeref
   \<and> sse2_matrix_multiply fmul NULL NULL NULL 16 s = Inl NullDeref
   \<and> avx2_vector_add fadd NULL NULL NULL 32 s = Inl NullDeref
   \<and> compress_old_zlib compress NULL 0 NULL NULL s = compress NULL NULL NULL 0 s
   \<and> main E s = Inl NullDeref"
proof -
  have "main_calls E ! 2 = sse2_matrix_multiply (mul_ps E) NULL NULL NULL 16"
    and "main_calls E ! 3 = avx2_vector_add (add_ps E) NULL NULL NULL 32"
    and "main_calls E ! 7 = compress_old_zlib (zlib_compress E) NULL 0 NULL NULL"
    by (simp_all add: main_calls_def numeral_nat)
  moreover have "compress_old_zlib compress NULL 0 NULL NULL s = compress NULL NULL NULL 0 s"
    by (simp add: compress_old_zlib_def)
  ultimately show ?thesis
    by (simp add: sse2_body_NULL sse2_matrix_multiply_NULL avx2_vector_add_NULL main_faults)
qed

end
